theory Spec2Isabelle
  imports Main
begin

unbundle bit_operations_syntax

section \<open>Python values\<close>

text \<open>
  A Python \<open>str\<close> is a sequence of Unicode code points, so it is modelled as a list of
  code points. \<open>ascii\<close> embeds an ASCII literal.
\<close>

type_synonym pystr = "nat list"

definition ascii :: "string \<Rightarrow> pystr" where
  "ascii s = map of_char s"

text \<open>\<open>str(n)\<close> on an int: the decimal digits, most significant first, with a minus sign.\<close>

fun str_nat :: "nat \<Rightarrow> pystr" where
  "str_nat n = (if n < 10 then [48 + n] else str_nat (n div 10) @ [48 + n mod 10])"

declare str_nat.simps [simp del]

definition str :: "int \<Rightarrow> pystr" where
  "str i = (if i < 0 then 45 # str_nat (nat (- i)) else str_nat (nat i))"

datatype pyerror = KeyError string | TypeError

text \<open>
  Values of the add-on configuration (a JSON object): booleans and integers, the two types
  the recognised options have. Python lets the two mix: \<open>0 == False\<close> holds, a bool is
  an int in arithmetic, and an int is true when it is not zero.
\<close>

datatype cval = CBool bool | CInt int

fun eq_False :: "cval \<Rightarrow> bool" where
  "eq_False (CBool b) = (\<not> b)"
| "eq_False (CInt i) = (i = 0)"

fun truthy :: "cval \<Rightarrow> bool" where
  "truthy (CBool b) = b"
| "truthy (CInt i) = (i \<noteq> 0)"

fun as_int :: "cval \<Rightarrow> int" where
  "as_int (CBool b) = of_bool b"
| "as_int (CInt i) = i"

section \<open>The toolkit and the host\<close>

text \<open>
  Widgets are objects referred to by identity. A widget carries what the add-on reads:
  whether it is a window, whether it is hidden, its window state and its children.
\<close>

text \<open>
  Modelled from the spec: the window state, which belongs to the toolkit; the spec lists
  the per-window minimized and hidden state among the host services. The window state is
  Qt's OR-combination of \<open>Qt::WindowState\<close> flags, an integer:
  \<open>WindowMinimized = 1\<close>, \<open>WindowMaximized = 2\<close>, \<open>WindowFullScreen = 4\<close>,
  \<open>WindowActive = 8\<close>; a maximized window that is minimized keeps its maximized flag.
  \<open>isMinimized()\<close> tests the minimized flag. \<open>w.windowState() == WindowMinimized\<close>
  compares two window states and holds exactly when the minimized flag is the only flag
  set.
\<close>

type_synonym wid = nat

record widget =
  isWindow :: bool
  isHidden :: bool
  windowState :: int
  children :: "wid list"

definition WindowNoState :: int where "WindowNoState = 0"
definition WindowMinimized :: int where "WindowMinimized = 1"
definition WindowMaximized :: int where "WindowMaximized = 2"
definition WindowFullScreen :: int where "WindowFullScreen = 4"
definition WindowActive :: int where "WindowActive = 8"

definition isMinimized :: "widget \<Rightarrow> bool" where
  "isMinimized x = (windowState x AND WindowMinimized \<noteq> 0)"

text \<open>
  \<open>_showWindows\<close> compares the bool \<open>w.isMinimized()\<close> with the enum member
  \<open>Qt.WindowState.WindowMinimized\<close>. What that comparison yields depends on the binding,
  which is a parameter of the model: where enum members are integers (PyQt5) Python
  compares \<open>True\<close> equal to \<open>1\<close>, and where they are members of a Python enum (PyQt6)
  a bool is never equal to one.
\<close>

datatype enum_binding = IntEnums | TypedEnums

definition bool_eq_enum :: "enum_binding \<Rightarrow> bool \<Rightarrow> int \<Rightarrow> bool" where
  "bool_eq_enum b p e = (case b of IntEnums \<Rightarrow> (of_bool p :: int) = e | TypedEnums \<Rightarrow> False)"

datatype ActivationReason = Unknown | Context | DoubleClick | Trigger | MiddleClick

text \<open>The slots connected to the signal \<open>actionExit.triggered\<close> of the main window.\<close>

datatype slot = Slot_mw_close | Slot_onExit

record deck_node =
  new_count :: int
  learn_count :: int
  review_count :: int

type_synonym color = nat

text \<open>
  What \<open>_createReviewsIcon\<close> paints: the base pixmap \<open>icons:anki.png\<close>, and on it,
  when a number is rendered, a rounded rectangle filled with the background colour and
  the text drawn in bold at the given pixel size.
\<close>

record badge =
  badge_text :: pystr
  badge_rect :: "int \<times> int \<times> int \<times> int"
  badge_pixelSize :: int
  badge_pen :: color
  badge_fill :: color

datatype icon = Icon "badge option"

text \<open>
  The calls into the toolkit and the host that change what the user sees, in the order
  they are made. \<open>AnkiQt_closeEvent\<close> records a call of the host's own close handler.
\<close>

datatype qcall =
    Hide wid
  | Show wid
  | ShowNormal wid
  | Raise wid
  | ActivateWindow wid
  | NewTrayIcon nat
  | SetIcon nat icon
  | TrayShow nat
  | SetQuitOnLastWindowClosed bool
  | CloseEventIgnore
  | AnkiQt_closeEvent

text \<open>
  One record holds the \<open>AnkiSystemTray\<close> instance, the attributes of the main window
  \<open>mw\<close> that the add-on uses, and the part of the toolkit and of the host it talks to.
  \<open>widgets w = None\<close> means that the C++ object behind \<open>w\<close> has been deleted
  (\<open>sip.isdeleted(w)\<close>). \<open>paintedCount\<close> is a ghost field: the count handed to the last
  \<open>_setSystemTrayIcon\<close>; no code reads it. \<open>running\<close> tells whether the application
  process is still there.
\<close>

record state =
  showDueAmount :: bool
  dueFontSize :: int
  isAnkiFocused :: bool
  isMinimizedToTray :: bool
  lastFocusedWidget :: wid
  explicitlyHiddenWindows :: "wid list"
  displayedNumberOfCardsDue :: int
  trayIcon :: nat
  mw :: wid
  mw_attrs :: "string set"
  closeEventFromAction :: bool
  actionExit_triggered :: "slot list"
  focusChanged_connections :: nat
  config :: "string \<rightharpoonup> cval"
  deck_due_tree :: "deck_node list"
  state_learn_color :: color
  canvas_elevated_color :: color
  platform :: string
  binding :: enum_binding
  running :: bool
  widgets :: "wid \<rightharpoonup> widget"
  topLevel :: "wid list"
  trayIcons :: nat
  calls :: "qcall list"
  paintedCount :: "int option"

definition isdeleted :: "state \<Rightarrow> wid \<Rightarrow> bool" where
  "isdeleted s w = (widgets s w = None)"

text \<open>\<open>QApplication.topLevelWidgets()\<close> lists live widgets only.\<close>

definition topLevelWidgets :: "state \<Rightarrow> wid list" where
  "topLevelWidgets s = filter (\<lambda>w. \<not> isdeleted s w) (topLevel s)"

text \<open>
  Modelled from the spec: the widget methods, which belong to the toolkit. \<open>hide()\<close>
  and \<open>show()\<close> set and clear the hidden state; \<open>showNormal()\<close> clears the minimized,
  maximized and full-screen flags and shows the widget; \<open>raise_()\<close> and
  \<open>activateWindow()\<close> change stacking and focus, which the toolkit reports back through
  \<open>focusChanged\<close>. The add-on calls them on live widgets only.
\<close>

definition log :: "qcall \<Rightarrow> state \<Rightarrow> state" where
  "log c s = s\<lparr>calls := calls s @ [c]\<rparr>"

definition modify :: "wid \<Rightarrow> (widget \<Rightarrow> widget) \<Rightarrow> state \<Rightarrow> state" where
  "modify w f s = s\<lparr>widgets := (widgets s)(w := map_option f (widgets s w))\<rparr>"

definition QWidget_hide :: "wid \<Rightarrow> state \<Rightarrow> state" where
  "QWidget_hide w s = log (Hide w) (modify w (\<lambda>x. x\<lparr>isHidden := True\<rparr>) s)"

definition QWidget_show :: "wid \<Rightarrow> state \<Rightarrow> state" where
  "QWidget_show w s = log (Show w) (modify w (\<lambda>x. x\<lparr>isHidden := False\<rparr>) s)"

definition QWidget_showNormal :: "wid \<Rightarrow> state \<Rightarrow> state" where
  "QWidget_showNormal w s =
     log (ShowNormal w)
       (modify w (\<lambda>x. x\<lparr>isHidden := False,
          windowState := windowState x AND NOT (WindowMinimized OR WindowMaximized OR WindowFullScreen)\<rparr>) s)"

definition QWidget_raise :: "wid \<Rightarrow> state \<Rightarrow> state" where
  "QWidget_raise w s = log (Raise w) s"

definition QWidget_activateWindow :: "wid \<Rightarrow> state \<Rightarrow> state" where
  "QWidget_activateWindow w s = log (ActivateWindow w) s"

section \<open>The tray icon and the due count\<close>

definition getAmountOfCardsDue :: "state \<Rightarrow> int" where
  "getAmountOfCardsDue s =
     (if \<not> showDueAmount s then 0
      else fold (\<lambda>child total. total + new_count child + learn_count child + review_count child)
             (deck_due_tree s) 0)"

text \<open>
  The string literal of the last branch is written as it stands in the source file, whose
  bytes there are \<open>C3 A2 CB 86 C5 BE\<close>: under the file's declared UTF-8 coding these are
  the three code points U+00E2, U+02C6, U+017E.
\<close>

definition formatNumber :: "int \<Rightarrow> pystr" where
  "formatNumber number =
     (let numberString = str number in
      if number < 1000 then str number
      else if number \<ge> 1000 \<and> number < 10000 then
        [numberString ! 0] @ ascii ''.'' @ [numberString ! 1] @ ascii ''k''
      else [0xE2, 0x2C6, 0x17E])"

definition getCardsDueDisplayNumber :: "int \<Rightarrow> pystr" where
  "getCardsDueDisplayNumber amount = formatNumber amount"

definition createReviewsIcon :: "state \<Rightarrow> pystr \<Rightarrow> bool \<Rightarrow> icon" where
  "createReviewsIcon s string renderNumber =
     (let textColor = state_learn_color s;
          backgroundColor = canvas_elevated_color s;
          fontSize = dueFontSize s;
          sizeRect = (0, 32 - fontSize, 32, fontSize)
      in if renderNumber then
           Icon (Some \<lparr>badge_text = string, badge_rect = sizeRect, badge_pixelSize = fontSize,
                       badge_pen = textColor, badge_fill = backgroundColor\<rparr>)
         else Icon None)"

definition setSystemTrayIcon :: "nat \<Rightarrow> int \<Rightarrow> state \<Rightarrow> state" where
  "setSystemTrayIcon tray numberOfReviews s =
     (let displayNumber = getCardsDueDisplayNumber numberOfReviews;
          shouldShowNumber = (numberOfReviews > 0 \<and> showDueAmount s);
          ankiLogo = createReviewsIcon s displayNumber shouldShowNumber
      in log (SetIcon tray ankiLogo) (s\<lparr>paintedCount := Some numberOfReviews\<rparr>))"

definition updateSystemTrayIcon :: "bool \<Rightarrow> state \<Rightarrow> state" where
  "updateSystemTrayIcon force s =
     (let numberOfCardsDue = getAmountOfCardsDue s;
          didDueCardCountChange = (numberOfCardsDue \<noteq> displayedNumberOfCardsDue s);
          shouldShowDueAmount = showDueAmount s;
          shouldUpdate = (shouldShowDueAmount \<and> didDueCardCountChange)
      in if shouldUpdate \<or> force then
           setSystemTrayIcon (trayIcon s) numberOfCardsDue
             (s\<lparr>displayedNumberOfCardsDue := numberOfCardsDue\<rparr>)
         else s)"

text \<open>
  \<open>_createSystemTrayIcon\<close> makes a new \<open>QSystemTrayIcon\<close>, paints it, and gives it the
  context menu and the \<open>activated\<close> connection. It returns the new tray icon, which
  \<open>__init__\<close> stores in \<open>self.trayIcon\<close>.
\<close>

definition createSystemTrayIcon :: "state \<Rightarrow> nat \<times> state" where
  "createSystemTrayIcon s =
     (let tray = trayIcons s;
          s1 = log (NewTrayIcon tray) (s\<lparr>trayIcons := Suc (trayIcons s)\<rparr>);
          numberOfReviews = getAmountOfCardsDue s1
      in (tray, setSystemTrayIcon tray numberOfReviews s1))"

section \<open>Showing and hiding windows\<close>

definition visibleWindows :: "state \<Rightarrow> wid list" where
  "visibleWindows s =
     filter (\<lambda>w. case widgets s w of
                   None \<Rightarrow> False
                 | Some x \<Rightarrow> isWindow x \<and> \<not> isHidden x \<and> children x \<noteq> [])
       (topLevelWidgets s)"

definition anyWindowMinimized :: "state \<Rightarrow> bool" where
  "anyWindowMinimized s =
     list_ex (\<lambda>w. case widgets s w of
                    None \<Rightarrow> False
                  | Some x \<Rightarrow> windowState x = WindowMinimized)
       (visibleWindows s)"

fun showWindows :: "wid list \<Rightarrow> state \<Rightarrow> state" where
  "showWindows [] s = s"
| "showWindows (w # ws) s =
     (case widgets s w of
        None \<Rightarrow> showWindows ws s
      | Some x \<Rightarrow>
          showWindows ws
            (QWidget_raise w
              (if bool_eq_enum (binding s) (isMinimized x) WindowMinimized
               then QWidget_showNormal w s
               else QWidget_show w (QWidget_hide w s))))"

text \<open>
  What one round of the loop body of \<open>_showWindows\<close> does to a live widget: where the
  comparison holds the window is shown normal, otherwise it is hidden and shown again.
\<close>

definition restored :: "enum_binding \<Rightarrow> widget \<Rightarrow> widget" where
  "restored b x =
     (if bool_eq_enum b (isMinimized x) WindowMinimized
      then x\<lparr>isHidden := False,
             windowState := windowState x AND NOT (WindowMinimized OR WindowMaximized OR WindowFullScreen)\<rparr>
      else x\<lparr>isHidden := False\<rparr>)"

definition showAll :: "state \<Rightarrow> state" where
  "showAll s =
     (let s1 = (if isMinimizedToTray s then showWindows (explicitlyHiddenWindows s) s
                else showWindows (visibleWindows s) s);
          s2 = (if \<not> isdeleted s1 (lastFocusedWidget s1)
                then QWidget_activateWindow (lastFocusedWidget s1)
                       (QWidget_raise (lastFocusedWidget s1) s1)
                else s1)
      in s2\<lparr>isMinimizedToTray := False\<rparr>)"

definition hideAll :: "state \<Rightarrow> state" where
  "hideAll s =
     (let s1 = s\<lparr>explicitlyHiddenWindows := visibleWindows s\<rparr>
      in (fold QWidget_hide (explicitlyHiddenWindows s1) s1)\<lparr>isMinimizedToTray := True\<rparr>)"

definition onActivated :: "ActivationReason \<Rightarrow> state \<Rightarrow> state" where
  "onActivated reason s =
     (if reason = Trigger then
        if \<not> isAnkiFocused s \<or> anyWindowMinimized s \<or> isMinimizedToTray s then showAll s
        else if \<not> (take 5 (platform s) = ''win32'') then hideAll s
        else s
      else s)"

definition onFocusChanged :: "wid option \<Rightarrow> wid option \<Rightarrow> state \<Rightarrow> state" where
  "onFocusChanged old now s =
     (case now of
        None \<Rightarrow> s\<lparr>isAnkiFocused := False\<rparr>
      | Some n \<Rightarrow> s\<lparr>isAnkiFocused := True, lastFocusedWidget := n\<rparr>)"

section \<open>Closing the main window\<close>

text \<open>
  Modelled from the spec: \<open>AnkiQt.closeEvent\<close>, the original close behaviour, belongs
  to the host and is not part of the repository. The spec says that the application is
  torn down implicitly at process exit, with no explicit cleanup, "since the process exits
  with the main window": the original close behaviour ends the process.
\<close>

definition host_closeEvent :: "state \<Rightarrow> state" where
  "host_closeEvent s = log AnkiQt_closeEvent (s\<lparr>running := False\<rparr>)"

text \<open>
  \<open>_wrapCloseCloseEvent\<close> installs \<open>repl\<close> as the main window's \<open>closeEvent\<close>, so
  every close event of the main window, from the window manager or from \<open>mw.close()\<close>,
  runs \<open>repl\<close>. Its \<open>self\<close> is the main window and \<open>self.systemTray\<close> the coordinator.
\<close>

definition repl :: "state \<Rightarrow> state" where
  "repl s =
     (if closeEventFromAction s then host_closeEvent s
      else log CloseEventIgnore (hideAll s))"

definition mw_close :: "state \<Rightarrow> state" where
  "mw_close s = repl s"

definition onExit :: "state \<Rightarrow> state" where
  "onExit s = mw_close (s\<lparr>closeEventFromAction := True\<rparr>)"

section \<open>Construction\<close>

text \<open>
  A function that can raise returns either the exception together with the state in which
  it was raised, or the state it leaves when it returns.

  \<open>_configureMw\<close> sets the exit flag of the main window, connects \<open>onFocusChanged\<close>,
  disconnects \<open>mw.close\<close> from the exit action, connects \<open>onExit\<close> to it and installs
  the close handler. Disconnecting a slot that is not connected raises \<open>TypeError\<close>.
\<close>

definition configureMw :: "state \<Rightarrow> (pyerror \<times> state) + state" where
  "configureMw s0 =
     (let s = s0\<lparr>closeEventFromAction := False,
                 mw_attrs := insert ''closeEventFromAction'' (mw_attrs s0)\<rparr>;
          s = s\<lparr>focusChanged_connections := Suc (focusChanged_connections s)\<rparr>
      in if Slot_mw_close \<in> set (actionExit_triggered s) then
           Inr (s\<lparr>actionExit_triggered :=
                     remove1 Slot_mw_close (actionExit_triggered s) @ [Slot_onExit],
                   mw_attrs := insert ''closeEvent'' (mw_attrs s)\<rparr>)
         else Inl (TypeError, s))"

text \<open>
  \<open>__init__\<close> runs on a fresh instance, whose attributes read the class-level values
  \<open>dueFontSize = 16\<close>, \<open>showDueAmount = True\<close> and \<open>_displayedNumberOfCardsDue = 0\<close>.
  \<open>init_setup\<close> is the body of \<open>__init__\<close> up to and including \<open>self._addHooks()\<close>;
  \<open>_addHooks\<close> registers the three update functions, which \<open>step\<close> below dispatches.
  \<open>AnkiSystemTray_construct\<close> is the whole of \<open>__init__\<close>: its last statement
  subscripts \<open>config["hide_on_startup"]\<close>, which raises \<open>KeyError\<close> on a missing key.
  \<open>AnkiSystemTray_init\<close> is its outcome for the caller: the exception alone, or the
  initialised state.
\<close>

definition init_setup :: "state \<Rightarrow> (pyerror \<times> state) + state" where
  "init_setup s0 =
     (let s = s0\<lparr>dueFontSize := 16, showDueAmount := True, displayedNumberOfCardsDue := 0\<rparr>;
          cfg = config s;
          s = (if ''show_due'' \<in> dom cfg \<and> eq_False (the (cfg ''show_due''))
               then s\<lparr>showDueAmount := False\<rparr> else s);
          s = (if ''due_font_size'' \<in> dom cfg
               then s\<lparr>dueFontSize := as_int (the (cfg ''due_font_size''))\<rparr> else s);
          s = s\<lparr>isAnkiFocused := True, isMinimizedToTray := False,
                lastFocusedWidget := mw s, explicitlyHiddenWindows := []\<rparr>;
          (tray, s) = createSystemTrayIcon s;
          s = s\<lparr>trayIcon := tray\<rparr>;
          s = log (SetQuitOnLastWindowClosed False) s
      in case configureMw s of
           Inl r \<Rightarrow> Inl r
         | Inr s \<Rightarrow> Inr (log (TrayShow (trayIcon s)) s))"

definition AnkiSystemTray_construct :: "state \<Rightarrow> (pyerror \<times> state) + state" where
  "AnkiSystemTray_construct s0 =
     (case init_setup s0 of
        Inl r \<Rightarrow> Inl r
      | Inr s \<Rightarrow>
          (case config s0 ''hide_on_startup'' of
             None \<Rightarrow> Inl (KeyError ''hide_on_startup'', s)
           | Some v \<Rightarrow> Inr (if truthy v then hideAll s else s)))"

definition AnkiSystemTray_init :: "state \<Rightarrow> pyerror + state" where
  "AnkiSystemTray_init s0 =
     (case AnkiSystemTray_construct s0 of
        Inl (e, s) \<Rightarrow> Inl e
      | Inr s \<Rightarrow> Inr s)"

text \<open>
  When \<open>__init__\<close> raises, the assignment \<open>mw.systemTray = AnkiSystemTray(mw)\<close> does
  not take place: what the toolkit and the main window have been given stays, and the
  instance fields of the record are again those of the coordinator that \<open>mw.systemTray\<close>
  held before, if any.
\<close>

definition keep_instance :: "state \<Rightarrow> state \<Rightarrow> state" where
  "keep_instance old s =
     s\<lparr>showDueAmount := showDueAmount old, dueFontSize := dueFontSize old,
       isAnkiFocused := isAnkiFocused old, isMinimizedToTray := isMinimizedToTray old,
       lastFocusedWidget := lastFocusedWidget old,
       explicitlyHiddenWindows := explicitlyHiddenWindows old,
       displayedNumberOfCardsDue := displayedNumberOfCardsDue old,
       trayIcon := trayIcon old\<rparr>"

definition minimizeToTrayInit :: "state \<Rightarrow> (pyerror \<times> state) + state" where
  "minimizeToTrayInit s =
     (if ''trayIcon'' \<in> mw_attrs s then Inr s
      else case AnkiSystemTray_construct s of
             Inl (e, s') \<Rightarrow> Inl (e, keep_instance s s')
           | Inr s' \<Rightarrow> Inr (s'\<lparr>mw_attrs := insert ''systemTray'' (mw_attrs s')\<rparr>))"

text \<open>The hook \<open>main_window_did_init\<close> fired a number of times; an exception ends the run.\<close>

fun fire_main_window_did_init :: "nat \<Rightarrow> state \<Rightarrow> (pyerror \<times> state) + state" where
  "fire_main_window_did_init 0 s = Inr s"
| "fire_main_window_did_init (Suc n) s =
     (case minimizeToTrayInit s of
        Inl r \<Rightarrow> Inl r
      | Inr s' \<Rightarrow> fire_main_window_did_init n s')"

section \<open>Events\<close>

text \<open>
  After construction the add-on only reacts to what the toolkit and the host deliver:
  a tray activation, a focus change, the tray menu's two actions, a close event of the
  main window from the window manager, and the three hooks. Between these the toolkit
  and the host change on their own: windows are created, shown, hidden, minimized and
  destroyed, and the deck tree changes.
\<close>

datatype event =
    TrayActivated ActivationReason
  | FocusChanged "wid option" "wid option"
  | ShowAllTriggered
  | ExitTriggered
  | CloseRequested
  | ThemeDidChange
  | StateDidChange
  | OperationDidExecute
  | WindowsChanged "wid \<rightharpoonup> widget" "wid list"
  | DecksChanged "deck_node list"

fun step :: "event \<Rightarrow> state \<Rightarrow> state" where
  "step (TrayActivated reason) s = onActivated reason s"
| "step (FocusChanged old now) s = onFocusChanged old now s"
| "step ShowAllTriggered s = showAll s"
| "step ExitTriggered s = onExit s"
| "step CloseRequested s = repl s"
| "step ThemeDidChange s = updateSystemTrayIcon True s"
| "step StateDidChange s = updateSystemTrayIcon False s"
| "step OperationDidExecute s = updateSystemTrayIcon False s"
| "step (WindowsChanged wmap tops) s = s\<lparr>widgets := wmap, topLevel := tops\<rparr>"
| "step (DecksChanged tree) s = s\<lparr>deck_due_tree := tree\<rparr>"

text \<open>An event is delivered only while the application is running.\<close>

definition deliver :: "event \<Rightarrow> state \<Rightarrow> state" where
  "deliver e s = (if running s then step e s else s)"

definition run :: "event list \<Rightarrow> state \<Rightarrow> state" where
  "run es s = fold deliver es s"

section \<open>Framing\<close>

text \<open>
  \<open>frame s s'\<close>: the step from \<open>s\<close> to \<open>s'\<close> touched nothing but the widgets and the
  record of calls.
\<close>

definition frame :: "state \<Rightarrow> state \<Rightarrow> bool" where
  "frame s s' = (s' = s\<lparr>widgets := widgets s', calls := calls s'\<rparr>)"

section \<open>Before the exit action\<close>

text \<open>
  \<open>no_exit_yet s\<close>: the application is running, the exit flag is not set and the host's
  close handler has not run.
\<close>

definition no_exit_yet :: "state \<Rightarrow> bool" where
  "no_exit_yet s =
     (running s \<and> \<not> closeEventFromAction s \<and> AnkiQt_closeEvent \<notin> set (calls s))"

section \<open>Example states\<close>

text \<open>
  A main window with a visible second window that was maximized and then minimized, an
  independently hidden window and a childless toolkit window; one deck with five cards
  due; the exit action still connected to \<open>mw.close\<close>; enum members of the binding
  are members of a Python enum.
\<close>

definition example_widgets :: "wid \<rightharpoonup> widget" where
  "example_widgets =
     [10 \<mapsto> \<lparr>isWindow = True, isHidden = False, windowState = 0, children = [20]\<rparr>,
      11 \<mapsto> \<lparr>isWindow = True, isHidden = False, windowState = 3, children = [21]\<rparr>,
      12 \<mapsto> \<lparr>isWindow = True, isHidden = True, windowState = 0, children = [22]\<rparr>,
      13 \<mapsto> \<lparr>isWindow = True, isHidden = False, windowState = 0, children = []\<rparr>]"

definition example_state :: state where
  "example_state =
     \<lparr>showDueAmount = True, dueFontSize = 16, isAnkiFocused = True,
      isMinimizedToTray = False, lastFocusedWidget = 10, explicitlyHiddenWindows = [],
      displayedNumberOfCardsDue = 0, trayIcon = 0, mw = 10, mw_attrs = {},
      closeEventFromAction = False, actionExit_triggered = [Slot_mw_close],
      focusChanged_connections = 0,
      config = [''hide_on_startup'' \<mapsto> CBool False],
      deck_due_tree = [\<lparr>new_count = 2, learn_count = 1, review_count = 2\<rparr>],
      state_learn_color = 1, canvas_elevated_color = 2, platform = ''linux'',
      binding = TypedEnums, running = True,
      widgets = example_widgets, topLevel = [10, 11, 12, 13], trayIcons = 0, calls = [],
      paintedCount = None\<rparr>"

section \<open>Number formatting\<close>

lemma str_nat_four_digits:
  assumes "1000 \<le> m" "m < 10000"
  shows "str_nat m =
    [48 + m div 1000, 48 + m div 100 mod 10, 48 + m div 10 mod 10, 48 + m mod 10]"
proof -
  have d: "m div 10 div 10 = m div 100" "m div 100 div 10 = m div 1000"
    by (simp_all add: div_mult2_eq [symmetric])
  have b: "\<not> m < 10" "\<not> m div 10 < 10" "\<not> m div 100 < 10" "m div 1000 < 10"
    using assms by auto
  have 1: "str_nat m = str_nat (m div 10) @ [48 + m mod 10]"
    using b(1) by (simp add: str_nat.simps [of m])
  have 2: "str_nat (m div 10) = str_nat (m div 100) @ [48 + m div 10 mod 10]"
    using b(2) d(1) by (simp add: str_nat.simps [of "m div 10"])
  have 3: "str_nat (m div 100) = str_nat (m div 1000) @ [48 + m div 100 mod 10]"
    using b(3) d(2) by (simp add: str_nat.simps [of "m div 100"])
  have 4: "str_nat (m div 1000) = [48 + m div 1000]"
    using b(4) by (simp add: str_nat.simps [of "m div 1000"])
  show ?thesis by (simp add: 1 2 3 4)
qed

text \<open>
  In the middle branch the subscripts \<open>numberString[0]\<close> and \<open>numberString[1]\<close> are in
  range, since the string has four digits.
\<close>

lemma str_four_digits:
  assumes "1000 \<le> number" "number < 10000"
  shows "length (str number) = 4"
  using assms str_nat_four_digits [of "nat number"] by (simp add: str_def)

lemma formatNumber_below_1000: "number < 1000 \<Longrightarrow> formatNumber number = str number"
  by (simp add: formatNumber_def)

lemma formatNumber_thousands:
  assumes "1000 \<le> number" "number < 10000"
  shows "formatNumber number =
    [48 + nat (number div 1000), 46, 48 + nat (number div 100 mod 10), 107]"
proof -
  have "str number = str_nat (nat number)"
    using assms by (simp add: str_def)
  also have "\<dots> = [48 + nat number div 1000, 48 + nat number div 100 mod 10,
      48 + nat number div 10 mod 10, 48 + nat number mod 10]"
    using assms by (intro str_nat_four_digits) auto
  finally have s: "str number = [48 + nat number div 1000, 48 + nat number div 100 mod 10,
      48 + nat number div 10 mod 10, 48 + nat number mod 10]" .
  have n: "nat number div 1000 = nat (number div 1000)"
    "nat number div 100 mod 10 = nat (number div 100 mod 10)"
    using assms by (simp_all add: nat_div_distrib nat_mod_distrib)
  show ?thesis
    using assms by (simp add: formatNumber_def Let_def s ascii_def n)
qed

lemma formatNumber_from_10000:
  "10000 \<le> number \<Longrightarrow> formatNumber number = [0xE2, 0x2C6, 0x17E]"
  by (simp add: formatNumber_def)

lemma formatNumber_1234: "formatNumber 1234 = ascii ''1.2k''"
  using formatNumber_thousands [of 1234] by (simp add: ascii_def)

lemma formatNumber_7: "formatNumber 7 = ascii ''7''"
  by (simp add: formatNumber_def str_def str_nat.simps ascii_def)

text \<open>
  C4. The badge text for a due count: below 1000 it is \<open>str(n)\<close>, and from 1000 to 9999
  the first digit, a dot, the second digit and \<open>k\<close>, as the three lemmas above show. From
  10000 on the claim expects the one-character string U+221E, the infinity sign; the
  function returns the three code points U+00E2, U+02C6, U+017E instead, which is the
  UTF-8 encoding of the infinity sign read as Windows-1252.
\<close>

theorem formatNumber_10000_not_infinity:
  "formatNumber 10000 = [0xE2, 0x2C6, 0x17E] \<and> formatNumber 10000 \<noteq> [0x221E]"
  by (simp add: formatNumber_def)

section \<open>Painting the tray icon\<close>

lemma calls_log [simp]: "calls (log c s) = calls s @ [c]"
  by (simp add: log_def)

lemma calls_setSystemTrayIcon:
  "calls (setSystemTrayIcon tray n s) =
     calls s @ [SetIcon tray (createReviewsIcon s (formatNumber n) (n > 0 \<and> showDueAmount s))]"
  by (simp add: setSystemTrayIcon_def getCardsDueDisplayNumber_def createReviewsIcon_def
      Let_def log_def)

text \<open>
  C7. Every redraw goes through \<open>_setSystemTrayIcon\<close>, which sets exactly one icon. That
  icon carries the badge, with the formatted count as its text, if and only if the count
  is greater than zero and \<open>show_due\<close> is enabled; otherwise it is the base icon alone.
\<close>

theorem setSystemTrayIcon_badge:
  "\<exists>ic. calls (setSystemTrayIcon tray n s) = calls s @ [SetIcon tray ic]
     \<and> (ic \<noteq> Icon None) = (n > 0 \<and> showDueAmount s)
     \<and> ic = (if n > 0 \<and> showDueAmount s
             then Icon (Some \<lparr>badge_text = formatNumber n,
                    badge_rect = (0, 32 - dueFontSize s, 32, dueFontSize s),
                    badge_pixelSize = dueFontSize s, badge_pen = state_learn_color s,
                    badge_fill = canvas_elevated_color s\<rparr>)
             else Icon None)"
  by (simp add: calls_setSystemTrayIcon createReviewsIcon_def Let_def)

theorem setSystemTrayIcon_badge_witness:
  "calls (setSystemTrayIcon 0 7 example_state) =
     [SetIcon 0 (Icon (Some \<lparr>badge_text = ascii ''7'', badge_rect = (0, 16, 32, 16),
        badge_pixelSize = 16, badge_pen = 1, badge_fill = 2\<rparr>))]
   \<and> calls (setSystemTrayIcon 0 0 example_state) = [SetIcon 0 (Icon None)]
   \<and> calls (setSystemTrayIcon 0 50 (example_state\<lparr>showDueAmount := False\<rparr>))
       = [SetIcon 0 (Icon None)]"
  using setSystemTrayIcon_badge [of 0 7 example_state]
    setSystemTrayIcon_badge [of 0 0 example_state]
    setSystemTrayIcon_badge [of 0 50 "example_state\<lparr>showDueAmount := False\<rparr>"]
  by (simp add: example_state_def formatNumber_7)


lemma updateSystemTrayIcon_unchanged_cache:
  "showDueAmount s \<Longrightarrow> getAmountOfCardsDue s = displayedNumberOfCardsDue s
     \<Longrightarrow> updateSystemTrayIcon False s = s"
  by (simp add: updateSystemTrayIcon_def Let_def)

lemma updateSystemTrayIcon_forced:
  "calls (updateSystemTrayIcon True s) =
       calls s @ [SetIcon (trayIcon s)
         (createReviewsIcon s (formatNumber (getAmountOfCardsDue s))
            (getAmountOfCardsDue s > 0 \<and> showDueAmount s))]"
  "displayedNumberOfCardsDue (updateSystemTrayIcon True s) = getAmountOfCardsDue s"
  "paintedCount (updateSystemTrayIcon True s) = Some (getAmountOfCardsDue s)"
  by (simp_all add: updateSystemTrayIcon_def Let_def setSystemTrayIcon_def
      getCardsDueDisplayNumber_def createReviewsIcon_def log_def)

section \<open>Framing lemmas\<close>

lemma calls_modify [simp]: "calls (modify w f s) = calls s"
  by (simp add: modify_def)

lemma calls_fold_hide: "calls (fold QWidget_hide ws s) = calls s @ map Hide ws"
  by (induction ws arbitrary: s) (simp_all add: QWidget_hide_def)

lemma frame_refl [simp]: "frame s s"
  by (simp add: frame_def)

lemma frame_trans: "frame s s1 \<Longrightarrow> frame s1 s2 \<Longrightarrow> frame s s2"
proof -
  assume a: "frame s s1" and b: "frame s1 s2"
  have "s2 = s1\<lparr>widgets := widgets s2, calls := calls s2\<rparr>" using b by (simp add: frame_def)
  also have "s1 = s\<lparr>widgets := widgets s1, calls := calls s1\<rparr>" using a by (simp add: frame_def)
  finally have "s2 = s\<lparr>widgets := widgets s2, calls := calls s2\<rparr>" by simp
  then show ?thesis by (simp add: frame_def)
qed

lemma frame_log [simp]: "frame s (log c s)"
  by (simp add: frame_def log_def)

lemma frame_modify [simp]: "frame s (modify w f s)"
  by (simp add: frame_def modify_def)

lemma frame_hide [simp]: "frame s (QWidget_hide w s)"
  unfolding QWidget_hide_def by (rule frame_trans [OF frame_modify frame_log])

lemma frame_show [simp]: "frame s (QWidget_show w s)"
  unfolding QWidget_show_def by (rule frame_trans [OF frame_modify frame_log])

lemma frame_showNormal [simp]: "frame s (QWidget_showNormal w s)"
  unfolding QWidget_showNormal_def by (rule frame_trans [OF frame_modify frame_log])

lemma frame_raise [simp]: "frame s (QWidget_raise w s)"
  by (simp add: QWidget_raise_def)

lemma frame_activateWindow [simp]: "frame s (QWidget_activateWindow w s)"
  by (simp add: QWidget_activateWindow_def)

lemma frame_fold_hide: "frame s (fold QWidget_hide ws s)"
proof (induction ws arbitrary: s)
  case Nil
  show ?case by simp
next
  case (Cons a ws)
  have "frame s (fold QWidget_hide ws (QWidget_hide a s))"
    by (rule frame_trans [OF frame_hide Cons.IH])
  then show ?case by simp
qed

lemma frame_showWindows: "frame s (showWindows ws s)"
proof (induction ws arbitrary: s)
  case Nil
  show ?case by simp
next
  case (Cons a ws)
  show ?case
  proof (cases "widgets s a")
    case None
    then show ?thesis using Cons.IH [of s] by simp
  next
    case (Some x)
    define s1 where "s1 = QWidget_raise a
           (if bool_eq_enum (binding s) (isMinimized x) WindowMinimized
            then QWidget_showNormal a s
            else QWidget_show a (QWidget_hide a s))"
    have e: "showWindows (a # ws) s = showWindows ws s1"
      unfolding s1_def using Some by simp
    have "frame s s1"
      unfolding s1_def
      by (auto intro: frame_trans [OF _ frame_raise] frame_trans [OF frame_hide frame_show])
    then show ?thesis
      unfolding e by (rule frame_trans [OF _ Cons.IH])
  qed
qed


lemma frame_fields:
  assumes "frame s s'"
  shows "showDueAmount s' = showDueAmount s"
    and "dueFontSize s' = dueFontSize s"
    and "isAnkiFocused s' = isAnkiFocused s"
    and "isMinimizedToTray s' = isMinimizedToTray s"
    and "lastFocusedWidget s' = lastFocusedWidget s"
    and "explicitlyHiddenWindows s' = explicitlyHiddenWindows s"
    and "displayedNumberOfCardsDue s' = displayedNumberOfCardsDue s"
    and "trayIcon s' = trayIcon s"
    and "mw s' = mw s"
    and "mw_attrs s' = mw_attrs s"
    and "closeEventFromAction s' = closeEventFromAction s"
    and "config s' = config s"
    and "deck_due_tree s' = deck_due_tree s"
    and "platform s' = platform s"
    and "state_learn_color s' = state_learn_color s"
    and "canvas_elevated_color s' = canvas_elevated_color s"
    and "binding s' = binding s"
    and "running s' = running s"
    and "actionExit_triggered s' = actionExit_triggered s"
    and "focusChanged_connections s' = focusChanged_connections s"
    and "topLevel s' = topLevel s"
    and "trayIcons s' = trayIcons s"
    and "paintedCount s' = paintedCount s"
proof -
  have e: "s' = s\<lparr>widgets := widgets s', calls := calls s'\<rparr>"
    using assms by (simp add: frame_def)
  show "showDueAmount s' = showDueAmount s" by (subst e) simp
  show "dueFontSize s' = dueFontSize s" by (subst e) simp
  show "isAnkiFocused s' = isAnkiFocused s" by (subst e) simp
  show "isMinimizedToTray s' = isMinimizedToTray s" by (subst e) simp
  show "lastFocusedWidget s' = lastFocusedWidget s" by (subst e) simp
  show "explicitlyHiddenWindows s' = explicitlyHiddenWindows s" by (subst e) simp
  show "displayedNumberOfCardsDue s' = displayedNumberOfCardsDue s" by (subst e) simp
  show "trayIcon s' = trayIcon s" by (subst e) simp
  show "mw s' = mw s" by (subst e) simp
  show "mw_attrs s' = mw_attrs s" by (subst e) simp
  show "closeEventFromAction s' = closeEventFromAction s" by (subst e) simp
  show "config s' = config s" by (subst e) simp
  show "deck_due_tree s' = deck_due_tree s" by (subst e) simp
  show "platform s' = platform s" by (subst e) simp
  show "state_learn_color s' = state_learn_color s" by (subst e) simp
  show "canvas_elevated_color s' = canvas_elevated_color s" by (subst e) simp
  show "binding s' = binding s" by (subst e) simp
  show "running s' = running s" by (subst e) simp
  show "actionExit_triggered s' = actionExit_triggered s" by (subst e) simp
  show "focusChanged_connections s' = focusChanged_connections s" by (subst e) simp
  show "topLevel s' = topLevel s" by (subst e) simp
  show "trayIcons s' = trayIcons s" by (subst e) simp
  show "paintedCount s' = paintedCount s" by (subst e) simp
qed

lemmas showWindows_fields = frame_fields [OF frame_showWindows]
lemmas fold_hide_fields = frame_fields [OF frame_fold_hide]
section \<open>The effect of showing and hiding on the widgets\<close>

lemma bool_eq_enum_simps [simp]:
  "bool_eq_enum IntEnums p WindowMinimized = p"
  "bool_eq_enum TypedEnums p e = False"
  by (simp_all add: bool_eq_enum_def WindowMinimized_def)

lemma isMinimized_isHidden_update [simp]: "isMinimized (x\<lparr>isHidden := b\<rparr>) = isMinimized x"
  by (simp add: isMinimized_def)

lemma restored_TypedEnums [simp]: "restored TypedEnums x = x\<lparr>isHidden := False\<rparr>"
  by (simp add: restored_def)

lemma restored_IntEnums:
  "restored IntEnums x =
     (if isMinimized x
      then x\<lparr>isHidden := False,
             windowState := windowState x AND NOT (WindowMinimized OR WindowMaximized OR WindowFullScreen)\<rparr>
      else x\<lparr>isHidden := False\<rparr>)"
  by (simp add: restored_def)

lemma not_minimized_restored [simp]: "\<not> isMinimized (restored IntEnums x)"
  by (simp add: restored_IntEnums isMinimized_def WindowMinimized_def WindowMaximized_def
      WindowFullScreen_def and.assoc)

lemma not_hidden_restored [simp]: "\<not> isHidden (restored b x)"
  by (simp add: restored_def)

lemma restored_idem [simp]: "restored b (restored b x) = restored b x"
proof (cases b)
  case IntEnums
  then show ?thesis
    using not_minimized_restored [of x] by (simp add: restored_IntEnums)
next
  case TypedEnums
  then show ?thesis by simp
qed

lemma restored_hidden [simp]: "restored b (x\<lparr>isHidden := h\<rparr>) = restored b x"
  by (simp add: restored_def)

lemma widgets_log [simp]: "widgets (log c s) = widgets s"
  by (simp add: log_def)

lemma widgets_modify [simp]:
  "widgets (modify w f s) = (widgets s)(w := map_option f (widgets s w))"
  by (simp add: modify_def)

lemma widgets_QWidget_hide [simp]:
  "widgets (QWidget_hide w s) =
     (widgets s)(w := map_option (\<lambda>x. x\<lparr>isHidden := True\<rparr>) (widgets s w))"
  by (simp add: QWidget_hide_def)

lemma widgets_QWidget_raise [simp]: "widgets (QWidget_raise w s) = widgets s"
  by (simp add: QWidget_raise_def)

lemma widgets_QWidget_activateWindow [simp]:
  "widgets (QWidget_activateWindow w s) = widgets s"
  by (simp add: QWidget_activateWindow_def)

lemma widgets_restore_step:
  assumes "widgets s a = Some x"
  shows "widgets (QWidget_raise a
           (if bool_eq_enum (binding s) (isMinimized x) WindowMinimized
            then QWidget_showNormal a s
            else QWidget_show a (QWidget_hide a s))) = (widgets s)(a \<mapsto> restored (binding s) x)"
  using assms by (auto simp: QWidget_showNormal_def QWidget_show_def restored_def)

lemma widgets_showWindows:
  "widgets (showWindows ws s) w =
     (if w \<in> set ws then map_option (restored (binding s)) (widgets s w) else widgets s w)"
proof (induction ws arbitrary: s)
  case Nil
  then show ?case by simp
next
  case (Cons a ws)
  show ?case
  proof (cases "widgets s a")
    case None
    then show ?thesis using Cons.IH [of s] by auto
  next
    case (Some x)
    define s1 where "s1 = QWidget_raise a
           (if bool_eq_enum (binding s) (isMinimized x) WindowMinimized
            then QWidget_showNormal a s
            else QWidget_show a (QWidget_hide a s))"
    have w1: "widgets s1 = (widgets s)(a \<mapsto> restored (binding s) x)"
      unfolding s1_def using Some by (rule widgets_restore_step)
    have "frame s s1"
      unfolding s1_def
      by (auto intro: frame_trans [OF _ frame_raise] frame_trans [OF frame_hide frame_show])
    then have b1: "binding s1 = binding s"
      by (rule frame_fields)
    have "showWindows (a # ws) s = showWindows ws s1"
      unfolding s1_def using Some by simp
    then show ?thesis
      using Some by (simp add: Cons.IH [of s1] w1 b1)
  qed
qed

lemma widgets_fold_hide:
  "widgets (fold QWidget_hide ws s) w =
     (if w \<in> set ws then map_option (\<lambda>x. x\<lparr>isHidden := True\<rparr>) (widgets s w)
      else widgets s w)"
proof (induction ws arbitrary: s)
  case Nil
  then show ?case by simp
next
  case (Cons a ws)
  show ?case
    by (cases "widgets s a") (auto simp: Cons.IH)
qed

section \<open>Hiding and restoring\<close>

lemma hideAll_fields:
  "isMinimizedToTray (hideAll s)"
  "explicitlyHiddenWindows (hideAll s) = visibleWindows s"
  "closeEventFromAction (hideAll s) = closeEventFromAction s"
  "lastFocusedWidget (hideAll s) = lastFocusedWidget s"
  "calls (hideAll s) = calls s @ map Hide (visibleWindows s)"
  by (simp_all add: hideAll_def Let_def fold_hide_fields calls_fold_hide)

lemma widgets_hideAll:
  "widgets (hideAll s) w =
     (if w \<in> set (visibleWindows s) then map_option (\<lambda>x. x\<lparr>isHidden := True\<rparr>) (widgets s w)
      else widgets s w)"
  by (simp add: hideAll_def Let_def widgets_fold_hide)

lemma widgets_showAll:
  "widgets (showAll s) w =
     (if w \<in> set (if isMinimizedToTray s then explicitlyHiddenWindows s else visibleWindows s)
      then map_option (restored (binding s)) (widgets s w) else widgets s w)"
  by (simp add: showAll_def Let_def widgets_showWindows)

lemma showAll_fields:
  "\<not> isMinimizedToTray (showAll s)"
  "explicitlyHiddenWindows (showAll s) = explicitlyHiddenWindows s"
  "closeEventFromAction (showAll s) = closeEventFromAction s"
  by (simp_all add: showAll_def Let_def showWindows_fields QWidget_raise_def
      QWidget_activateWindow_def log_def)

lemma visibleWindows_iff:
  "w \<in> set (visibleWindows s) \<longleftrightarrow>
     w \<in> set (topLevel s) \<and>
     (\<exists>x. widgets s w = Some x \<and> isWindow x \<and> \<not> isHidden x \<and> children x \<noteq> [])"
  by (auto simp: visibleWindows_def topLevelWidgets_def isdeleted_def split: option.splits)

lemma binding_hideAll [simp]: "binding (hideAll s) = binding s"
  by (simp add: hideAll_def Let_def fold_hide_fields)

lemma widgets_showAll_hideAll:
  "widgets (showAll (hideAll s)) w =
     (if w \<in> set (visibleWindows s) then map_option (restored (binding s)) (widgets s w)
      else widgets s w)"
  by (simp add: widgets_showAll hideAll_fields widgets_hideAll option.map_comp comp_def)

lemma visibleWindows_example: "visibleWindows example_state = [10, 11]"
  by (simp add: visibleWindows_def topLevelWidgets_def isdeleted_def example_state_def
      example_widgets_def)

lemma widgets_example:
  "widgets example_state 10 = Some \<lparr>isWindow = True, isHidden = False, windowState = 0, children = [20]\<rparr>"
  "widgets example_state 11 = Some \<lparr>isWindow = True, isHidden = False, windowState = 3, children = [21]\<rparr>"
  "widgets example_state 12 = Some \<lparr>isWindow = True, isHidden = True, windowState = 0, children = [22]\<rparr>"
  by (simp_all add: example_state_def example_widgets_def)

lemma binding_example [simp]: "binding example_state = TypedEnums"
  by (simp add: example_state_def)

text \<open>
  Where enum members are integers the round trip un-minimizes: every window of the
  snapshot ends shown and not minimized, and one that was not minimized is exactly as it
  was.
\<close>

lemma hideAll_showAll_IntEnums:
  assumes "binding s = IntEnums" and "w \<in> set (visibleWindows s)"
  shows "\<exists>x x'. widgets s w = Some x \<and> widgets (showAll (hideAll s)) w = Some x'
         \<and> \<not> isHidden x' \<and> \<not> isMinimized x'
         \<and> x' = (if isMinimized x
                  then x\<lparr>windowState := windowState x AND
                          NOT (WindowMinimized OR WindowMaximized OR WindowFullScreen)\<rparr>
                  else x)"
proof -
  obtain x where x: "widgets s w = Some x" "\<not> isHidden x"
    using assms(2) by (auto simp: visibleWindows_iff)
  have "widgets (showAll (hideAll s)) w = Some (restored IntEnums x)"
    using assms x by (simp add: widgets_showAll_hideAll)
  moreover have "restored IntEnums x = (if isMinimized x
                  then x\<lparr>windowState := windowState x AND
                          NOT (WindowMinimized OR WindowMaximized OR WindowFullScreen)\<rparr>
                  else x)"
    using x(2) by (simp add: restored_IntEnums)
  ultimately show ?thesis
    using x by (metis not_hidden_restored not_minimized_restored)
qed

text \<open>
  C3. \<open>hideAll()\<close> followed at once by \<open>showAll()\<close> works on the snapshot taken by
  \<open>hideAll\<close> and leaves the hidden-to-tray flag false, but a window that was minimized
  is not un-minimized where enum members are members of a Python enum: there the
  comparison of \<open>w.isMinimized()\<close> with \<open>Qt.WindowState.WindowMinimized\<close> in
  \<open>_showWindows\<close> is never true, \<open>showNormal()\<close> is never called, and the window is
  hidden and shown again as it is. In the example state window 11 is visible and
  minimized before the round trip and still minimized after it.
\<close>

theorem hideAll_showAll_keeps_minimized:
  "binding example_state = TypedEnums
   \<and> visibleWindows example_state = [10, 11]
   \<and> explicitlyHiddenWindows (hideAll example_state) = [10, 11]
   \<and> widgets example_state 11 =
       Some \<lparr>isWindow = True, isHidden = False, windowState = 3, children = [21]\<rparr>
   \<and> widgets (showAll (hideAll example_state)) 11 =
       Some \<lparr>isWindow = True, isHidden = False, windowState = 3, children = [21]\<rparr>
   \<and> (\<exists>x'. widgets (showAll (hideAll example_state)) 11 = Some x' \<and> isMinimized x')
   \<and> \<not> isMinimizedToTray (showAll (hideAll example_state))"
  by (simp add: widgets_showAll_hideAll hideAll_fields showAll_fields visibleWindows_example
      widgets_example isMinimized_def WindowMinimized_def)



section \<open>Tray activation\<close>

lemma anyWindowMinimized_iff:
  "anyWindowMinimized s \<longleftrightarrow>
     (\<exists>w \<in> set (visibleWindows s). \<exists>x. widgets s w = Some x \<and> windowState x = WindowMinimized)"
  by (auto simp: anyWindowMinimized_def list_ex_iff split: option.splits)

lemma onActivated_policy:
  "onActivated reason s =
     (if reason \<noteq> Trigger then s
      else if \<not> isAnkiFocused s \<or> anyWindowMinimized s \<or> isMinimizedToTray s then showAll s
      else if take 5 (platform s) = ''win32'' then s
      else hideAll s)"
  by (simp add: onActivated_def)

lemma anyWindowMinimized_example: "\<not> anyWindowMinimized example_state"
  by (simp add: anyWindowMinimized_def visibleWindows_example widgets_example
      WindowMinimized_def)

text \<open>
  C2. \<open>onActivated\<close> follows the stated policy with \<open>_anyWindowMinimized()\<close> as its
  test for a minimized window (lemma \<open>onActivated_policy\<close>). That test compares the whole
  window state with \<open>WindowMinimized\<close>, so it misses a visible window that is minimized
  and carries a second flag. In the example state the application is focused, nothing is
  hidden to the tray, the platform is Linux, and window 11 was maximized before it was
  minimized: \<open>isMinimized()\<close> holds for it, yet the primary click hides all windows
  instead of showing them.
\<close>

theorem onActivated_misses_minimized_maximized:
  "isAnkiFocused example_state \<and> \<not> isMinimizedToTray example_state
   \<and> 11 \<in> set (visibleWindows example_state)
   \<and> (\<exists>x. widgets example_state 11 = Some x \<and> isMinimized x
          \<and> windowState x = WindowMinimized OR WindowMaximized)
   \<and> onActivated Trigger example_state = hideAll example_state
   \<and> onActivated Trigger example_state \<noteq> showAll example_state"
proof -
  have a: "onActivated Trigger example_state = hideAll example_state"
    using anyWindowMinimized_example
    by (simp add: onActivated_policy) (simp add: example_state_def)
  have "isMinimizedToTray (hideAll example_state)" by (simp add: hideAll_fields)
  moreover have "\<not> isMinimizedToTray (showAll example_state)" by (simp add: showAll_fields)
  ultimately have b: "hideAll example_state \<noteq> showAll example_state" by metis
  show ?thesis
    using a b
    by (simp add: visibleWindows_example widgets_example isMinimized_def WindowMinimized_def
        WindowMaximized_def) (simp add: example_state_def)
qed

theorem onActivated_misses_minimized_maximized_witness:
  "isMinimizedToTray (onActivated Trigger example_state)
   \<and> widgets (onActivated Trigger example_state) 11 =
       Some \<lparr>isWindow = True, isHidden = True, windowState = 3, children = [21]\<rparr>"
  using onActivated_misses_minimized_maximized
  by (simp add: hideAll_fields widgets_hideAll visibleWindows_example widgets_example)

section \<open>Close events\<close>

lemma calls_QWidget [simp]:
  "calls (QWidget_hide w s) = calls s @ [Hide w]"
  "calls (QWidget_show w s) = calls s @ [Show w]"
  "calls (QWidget_showNormal w s) = calls s @ [ShowNormal w]"
  "calls (QWidget_raise w s) = calls s @ [Raise w]"
  "calls (QWidget_activateWindow w s) = calls s @ [ActivateWindow w]"
  by (simp_all add: QWidget_hide_def QWidget_show_def QWidget_showNormal_def
      QWidget_raise_def QWidget_activateWindow_def)

lemma closeEvent_calls_showWindows:
  "AnkiQt_closeEvent \<in> set (calls (showWindows ws s)) \<longleftrightarrow> AnkiQt_closeEvent \<in> set (calls s)"
proof (induction ws arbitrary: s)
  case Nil
  show ?case by simp
next
  case (Cons a ws)
  show ?case
    by (cases "widgets s a") (simp_all add: Cons.IH)
qed

lemma closeEvent_calls_showAll:
  "AnkiQt_closeEvent \<in> set (calls (showAll s)) \<longleftrightarrow> AnkiQt_closeEvent \<in> set (calls s)"
  by (simp add: showAll_def Let_def closeEvent_calls_showWindows)

lemma closeEvent_calls_hideAll:
  "AnkiQt_closeEvent \<in> set (calls (hideAll s)) \<longleftrightarrow> AnkiQt_closeEvent \<in> set (calls s)"
  by (auto simp: hideAll_fields)

lemma running_showAll [simp]: "running (showAll s) = running s"
  by (simp add: showAll_def Let_def showWindows_fields QWidget_raise_def
      QWidget_activateWindow_def log_def)

lemma running_hideAll [simp]: "running (hideAll s) = running s"
  by (simp add: hideAll_def Let_def fold_hide_fields)

lemma updateSystemTrayIcon_close:
  "closeEventFromAction (updateSystemTrayIcon force s) = closeEventFromAction s"
  "running (updateSystemTrayIcon force s) = running s"
  "AnkiQt_closeEvent \<in> set (calls (updateSystemTrayIcon force s))
     \<longleftrightarrow> AnkiQt_closeEvent \<in> set (calls s)"
  by (simp_all add: updateSystemTrayIcon_def Let_def setSystemTrayIcon_def log_def)

lemma step_no_exit_yet:
  assumes "no_exit_yet s" "e \<noteq> ExitTriggered"
  shows "no_exit_yet (step e s)"
proof (cases e)
  case (TrayActivated reason)
  then show ?thesis
    using assms
    by (simp add: no_exit_yet_def onActivated_policy showAll_fields hideAll_fields(3)
        closeEvent_calls_showAll closeEvent_calls_hideAll)
next
  case (FocusChanged old now)
  then show ?thesis
    using assms by (simp add: no_exit_yet_def onFocusChanged_def split: option.splits)
next
  case ShowAllTriggered
  then show ?thesis
    using assms by (simp add: no_exit_yet_def showAll_fields closeEvent_calls_showAll)
next
  case ExitTriggered
  then show ?thesis using assms by simp
next
  case CloseRequested
  then show ?thesis
    using assms
    by (simp add: no_exit_yet_def repl_def hideAll_fields(3) closeEvent_calls_hideAll
        frame_fields(11,18) [OF frame_log])
next
  case ThemeDidChange
  then show ?thesis using assms by (simp add: no_exit_yet_def updateSystemTrayIcon_close)
next
  case StateDidChange
  then show ?thesis using assms by (simp add: no_exit_yet_def updateSystemTrayIcon_close)
next
  case OperationDidExecute
  then show ?thesis using assms by (simp add: no_exit_yet_def updateSystemTrayIcon_close)
next
  case (WindowsChanged wmap tops)
  then show ?thesis using assms by (simp add: no_exit_yet_def)
next
  case (DecksChanged tree)
  then show ?thesis using assms by (simp add: no_exit_yet_def)
qed

lemma run_append: "run (es @ es') s = run es' (run es s)"
  by (simp add: run_def)

lemma run_snoc: "run (es @ [e]) s = deliver e (run es s)"
  by (simp add: run_def)

lemma run_no_exit_yet:
  "no_exit_yet s \<Longrightarrow> ExitTriggered \<notin> set es \<Longrightarrow> no_exit_yet (run es s)"
  unfolding run_def
proof (induction es arbitrary: s)
  case Nil
  then show ?case by simp
next
  case (Cons e es)
  have "no_exit_yet (step e s)"
    using Cons.prems by (intro step_no_exit_yet) auto
  moreover have "deliver e s = step e s"
    using Cons.prems(1) by (simp add: deliver_def no_exit_yet_def)
  ultimately show ?case
    using Cons.prems by (simp add: Cons.IH)
qed

lemma run_ended: "\<not> running s \<Longrightarrow> run es s = s"
  unfolding run_def by (induction es) (simp_all add: deliver_def)

lemma exit_ends:
  "onExit s = log AnkiQt_closeEvent (s\<lparr>closeEventFromAction := True, running := False\<rparr>)"
  by (simp add: onExit_def mw_close_def repl_def host_closeEvent_def)

lemma running_iff_no_exit:
  assumes "no_exit_yet s"
  shows "running (run es s) \<longleftrightarrow> ExitTriggered \<notin> set es"
proof
  assume r: "running (run es s)"
  show "ExitTriggered \<notin> set es"
  proof
    assume "ExitTriggered \<in> set es"
    then obtain ys zs where es: "es = ys @ ExitTriggered # zs" "ExitTriggered \<notin> set ys"
      by (meson split_list_first)
    have "running (run ys s)"
      using run_no_exit_yet [OF assms es(2)] by (simp add: no_exit_yet_def)
    then have "\<not> running (run (ys @ [ExitTriggered]) s)"
      by (simp add: run_snoc deliver_def exit_ends log_def)
    then have "run zs (run (ys @ [ExitTriggered]) s) = run (ys @ [ExitTriggered]) s"
      by (rule run_ended)
    moreover have "run es s = run zs (run (ys @ [ExitTriggered]) s)"
      by (simp add: es(1) run_append [symmetric])
    ultimately show False
      using r \<open>\<not> running (run (ys @ [ExitTriggered]) s)\<close> by simp
  qed
next
  assume "ExitTriggered \<notin> set es"
  then show "running (run es s)"
    using run_no_exit_yet [OF assms] by (simp add: no_exit_yet_def)
qed

text \<open>
  C1. Start where the application runs and no exit has been requested, as a completed
  construction leaves it (lemma \<open>construct_no_exit_yet\<close> below), and let any
  events happen, changes of the windows and of the decks among them. The application is still running exactly when the exit action has not
  been triggered. While it is running, a close event of the main window from the window
  manager hides all visible windows and is ignored, the host's close handler does not
  run and the application keeps running; and the exit action sets the flag and closes
  the main window, and that close event runs the host's close handler, hides nothing and
  ends the application. Once the application has ended, no event is delivered.
\<close>

theorem close_event_terminates_iff_exit:
  assumes "running s" and "\<not> closeEventFromAction s"
    and "AnkiQt_closeEvent \<notin> set (calls s)"
  shows "(running (run es s) \<longleftrightarrow> ExitTriggered \<notin> set es)
     \<and> (running (run es s) \<longrightarrow>
          calls (run (es @ [CloseRequested]) s) =
            calls (run es s) @ map Hide (visibleWindows (run es s)) @ [CloseEventIgnore]
          \<and> AnkiQt_closeEvent \<notin> set (calls (run (es @ [CloseRequested]) s))
          \<and> running (run (es @ [CloseRequested]) s)
          \<and> isMinimizedToTray (run (es @ [CloseRequested]) s)
          \<and> (\<forall>w \<in> set (visibleWindows (run es s)). \<exists>x.
                widgets (run (es @ [CloseRequested]) s) w = Some x \<and> isHidden x)
          \<and> calls (run (es @ [ExitTriggered]) s) = calls (run es s) @ [AnkiQt_closeEvent]
          \<and> widgets (run (es @ [ExitTriggered]) s) = widgets (run es s)
          \<and> closeEventFromAction (run (es @ [ExitTriggered]) s)
          \<and> \<not> running (run (es @ [ExitTriggered]) s))
     \<and> (\<not> running (run es s) \<longrightarrow> (\<forall>e. run (es @ [e]) s = run es s))"
proof (intro conjI impI allI ballI)
  have n: "no_exit_yet s"
    using assms by (simp add: no_exit_yet_def)
  show i: "running (run es s) \<longleftrightarrow> ExitTriggered \<notin> set es"
    by (rule running_iff_no_exit [OF n])
  show "run (es @ [e]) s = run es s" if "\<not> running (run es s)" for e
    using that by (simp add: run_snoc deliver_def)
  {
    assume r: "running (run es s)"
    then have "no_exit_yet (run es s)"
      using i run_no_exit_yet [OF n] by simp
    then have f: "\<not> closeEventFromAction (run es s)"
      and c: "AnkiQt_closeEvent \<notin> set (calls (run es s))"
      by (simp_all add: no_exit_yet_def)
    have cr: "run (es @ [CloseRequested]) s = log CloseEventIgnore (hideAll (run es s))"
      using f r by (simp add: run_snoc deliver_def repl_def)
    have x: "run (es @ [ExitTriggered]) s =
        log AnkiQt_closeEvent ((run es s)\<lparr>closeEventFromAction := True, running := False\<rparr>)"
      using r by (simp add: run_snoc deliver_def exit_ends)
    have h: "\<exists>x. widgets (hideAll (run es s)) w = Some x \<and> isHidden x"
      if "w \<in> set (visibleWindows (run es s))" for w
      using that by (auto simp: widgets_hideAll visibleWindows_iff)
    show "calls (run (es @ [CloseRequested]) s) =
            calls (run es s) @ map Hide (visibleWindows (run es s)) @ [CloseEventIgnore]"
      by (simp add: cr hideAll_fields)
    show "AnkiQt_closeEvent \<notin> set (calls (run (es @ [CloseRequested]) s))"
      using c by (auto simp: cr hideAll_fields)
    show "running (run (es @ [CloseRequested]) s)"
      using r by (simp add: cr log_def)
    show "isMinimizedToTray (run (es @ [CloseRequested]) s)"
      by (simp add: cr log_def hideAll_fields)
    show "\<exists>x. widgets (run (es @ [CloseRequested]) s) w = Some x \<and> isHidden x"
      if "w \<in> set (visibleWindows (run es s))" for w
      using h [OF that] by (simp add: cr)
    show "calls (run (es @ [ExitTriggered]) s) = calls (run es s) @ [AnkiQt_closeEvent]"
      by (simp add: x)
    show "widgets (run (es @ [ExitTriggered]) s) = widgets (run es s)"
      by (simp add: x)
    show "closeEventFromAction (run (es @ [ExitTriggered]) s)"
      by (simp add: x log_def)
    show "\<not> running (run (es @ [ExitTriggered]) s)"
      by (simp add: x log_def)
  }
qed

theorem close_event_terminates_iff_exit_witness:
  "running example_state \<and> \<not> closeEventFromAction example_state
   \<and> AnkiQt_closeEvent \<notin> set (calls example_state)
   \<and> running (run [FocusChanged None (Some 11)] example_state)
   \<and> calls (run ([FocusChanged None (Some 11)] @ [CloseRequested]) example_state)
       = [Hide 10, Hide 11, CloseEventIgnore]
   \<and> calls (run ([FocusChanged None (Some 11)] @ [ExitTriggered]) example_state)
       = [AnkiQt_closeEvent]
   \<and> \<not> running (run [ExitTriggered] example_state)
   \<and> run ([ExitTriggered] @ [CloseRequested]) example_state = run [ExitTriggered] example_state"
proof -
  have h: "running example_state" "\<not> closeEventFromAction example_state"
    "calls example_state = []"
    by (simp_all add: example_state_def)
  have r: "run [FocusChanged None (Some 11)] example_state
      = example_state\<lparr>isAnkiFocused := True, lastFocusedWidget := 11\<rparr>"
    using h(1) by (simp add: run_def deliver_def onFocusChanged_def)
  have v: "visibleWindows (example_state\<lparr>isAnkiFocused := True, lastFocusedWidget := 11\<rparr>)
      = [10, 11]"
    by (simp add: visibleWindows_def topLevelWidgets_def isdeleted_def example_state_def
        example_widgets_def)
  show ?thesis
    using close_event_terminates_iff_exit [of example_state "[FocusChanged None (Some 11)]"]
      close_event_terminates_iff_exit [of example_state "[ExitTriggered]"]
    by (simp add: h r v)
qed

section \<open>Construction and the configuration\<close>

lemma hideAll_more_fields:
  "showDueAmount (hideAll s) = showDueAmount s"
  "dueFontSize (hideAll s) = dueFontSize s"
  "displayedNumberOfCardsDue (hideAll s) = displayedNumberOfCardsDue s"
  "trayIcon (hideAll s) = trayIcon s"
  "mw_attrs (hideAll s) = mw_attrs s"
  "config (hideAll s) = config s"
  "deck_due_tree (hideAll s) = deck_due_tree s"
  "trayIcons (hideAll s) = trayIcons s"
  "paintedCount (hideAll s) = paintedCount s"
  "state_learn_color (hideAll s) = state_learn_color s"
  "canvas_elevated_color (hideAll s) = canvas_elevated_color s"
  "actionExit_triggered (hideAll s) = actionExit_triggered s"
  by (simp_all add: hideAll_def Let_def fold_hide_fields)

lemma getAmountOfCardsDue_hideAll [simp]:
  "getAmountOfCardsDue (hideAll s) = getAmountOfCardsDue s"
  by (simp add: getAmountOfCardsDue_def hideAll_more_fields)

lemma configureMw_connected:
  "Slot_mw_close \<in> set (actionExit_triggered s) \<Longrightarrow>
     configureMw s =
       Inr (s\<lparr>closeEventFromAction := False,
              mw_attrs := insert ''closeEvent'' (insert ''closeEventFromAction'' (mw_attrs s)),
              focusChanged_connections := Suc (focusChanged_connections s),
              actionExit_triggered := remove1 Slot_mw_close (actionExit_triggered s) @ [Slot_onExit]\<rparr>)"
  by (simp add: configureMw_def Let_def)

lemma configureMw_disconnected:
  "Slot_mw_close \<notin> set (actionExit_triggered s) \<Longrightarrow>
     configureMw s =
       Inl (TypeError,
            s\<lparr>closeEventFromAction := False,
              mw_attrs := insert ''closeEventFromAction'' (mw_attrs s),
              focusChanged_connections := Suc (focusChanged_connections s)\<rparr>)"
  by (simp add: configureMw_def Let_def)


lemma init_setup_connected:
  assumes "Slot_mw_close \<in> set (actionExit_triggered s)"
  shows "\<exists>s'. init_setup s = Inr s'
     \<and> showDueAmount s' =
         (\<not> (''show_due'' \<in> dom (config s) \<and> eq_False (the (config s ''show_due''))))
     \<and> dueFontSize s' =
         (if ''due_font_size'' \<in> dom (config s) then as_int (the (config s ''due_font_size''))
          else 16)
     \<and> \<not> isMinimizedToTray s'
     \<and> \<not> closeEventFromAction s'
     \<and> trayIcons s' = Suc (trayIcons s)
     \<and> trayIcon s' = trayIcons s
     \<and> mw_attrs s' = insert ''closeEvent'' (insert ''closeEventFromAction'' (mw_attrs s))
     \<and> config s' = config s
     \<and> deck_due_tree s' = deck_due_tree s
     \<and> state_learn_color s' = state_learn_color s
     \<and> canvas_elevated_color s' = canvas_elevated_color s
     \<and> focusChanged_connections s' = Suc (focusChanged_connections s)
     \<and> actionExit_triggered s' =
         remove1 Slot_mw_close (actionExit_triggered s) @ [Slot_onExit]
     \<and> displayedNumberOfCardsDue s' = 0
     \<and> running s' = running s
     \<and> (AnkiQt_closeEvent \<in> set (calls s') \<longleftrightarrow> AnkiQt_closeEvent \<in> set (calls s))
     \<and> paintedCount s' = Some (getAmountOfCardsDue s')"
  using assms
  by (simp add: init_setup_def Let_def split_def createSystemTrayIcon_def
      setSystemTrayIcon_def log_def configureMw_connected getAmountOfCardsDue_def)

lemma init_setup_disconnected:
  assumes "Slot_mw_close \<notin> set (actionExit_triggered s)"
  shows "\<exists>s' ic. init_setup s = Inl (TypeError, s')
     \<and> trayIcons s' = Suc (trayIcons s)
     \<and> calls s' = calls s @ [NewTrayIcon (trayIcons s), SetIcon (trayIcons s) ic,
                               SetQuitOnLastWindowClosed False]
     \<and> \<not> closeEventFromAction s'
     \<and> mw_attrs s' = insert ''closeEventFromAction'' (mw_attrs s)
     \<and> focusChanged_connections s' = Suc (focusChanged_connections s)
     \<and> actionExit_triggered s' = actionExit_triggered s
     \<and> widgets s' = widgets s"
  using assms
  by (simp add: init_setup_def Let_def split_def createSystemTrayIcon_def
      setSystemTrayIcon_def log_def configureMw_disconnected)


lemma init_KeyError:
  assumes "Slot_mw_close \<in> set (actionExit_triggered s)"
    and "config s ''hide_on_startup'' = None"
  shows "AnkiSystemTray_init s = Inl (KeyError ''hide_on_startup'')"
proof -
  obtain s' where "init_setup s = Inr s'"
    using init_setup_connected [OF assms(1)] by blast
  then show ?thesis
    using assms(2) by (simp add: AnkiSystemTray_init_def AnkiSystemTray_construct_def)
qed

text \<open>
  C8. With \<open>show_due\<close> and \<open>due_font_size\<close> absent the class-level defaults stay in
  force (lemma \<open>init_defaults\<close> below), but with \<open>hide_on_startup\<close> absent \<open>__init__\<close>
  raises \<open>KeyError\<close>: its last statement subscripts the configuration without the
  membership test that guards the other two options.
\<close>

theorem init_hide_on_startup_absent:
  "AnkiSystemTray_init
     (example_state\<lparr>config := [''show_due'' \<mapsto> CBool True, ''due_font_size'' \<mapsto> CInt 16]\<rparr>)
   = Inl (KeyError ''hide_on_startup'')"
  by (rule init_KeyError) (simp_all add: example_state_def)

lemma construct_success:
  assumes "Slot_mw_close \<in> set (actionExit_triggered s)"
    and "config s ''hide_on_startup'' = Some v"
  shows "\<exists>t s'. init_setup s = Inr t \<and> AnkiSystemTray_construct s = Inr s'
     \<and> showDueAmount s' = showDueAmount t
     \<and> dueFontSize s' = dueFontSize t
     \<and> isMinimizedToTray s' = truthy v
     \<and> \<not> closeEventFromAction s'
     \<and> trayIcons s' = Suc (trayIcons s)
     \<and> trayIcon s' = trayIcons s
     \<and> mw_attrs s' = insert ''closeEvent'' (insert ''closeEventFromAction'' (mw_attrs s))
     \<and> config s' = config s
     \<and> deck_due_tree s' = deck_due_tree s
     \<and> state_learn_color s' = state_learn_color s
     \<and> canvas_elevated_color s' = canvas_elevated_color s
     \<and> actionExit_triggered s' =
         remove1 Slot_mw_close (actionExit_triggered s) @ [Slot_onExit]
     \<and> displayedNumberOfCardsDue s' = 0
     \<and> paintedCount s' = Some (getAmountOfCardsDue s')"
proof -
  obtain t where t: "init_setup s = Inr t" "\<not> isMinimizedToTray t" "\<not> closeEventFromAction t"
      "trayIcons t = Suc (trayIcons s)" "trayIcon t = trayIcons s"
      "mw_attrs t = insert ''closeEvent'' (insert ''closeEventFromAction'' (mw_attrs s))"
      "config t = config s" "deck_due_tree t = deck_due_tree s"
      "state_learn_color t = state_learn_color s"
      "canvas_elevated_color t = canvas_elevated_color s"
      "actionExit_triggered t = remove1 Slot_mw_close (actionExit_triggered s) @ [Slot_onExit]"
      "displayedNumberOfCardsDue t = 0" "paintedCount t = Some (getAmountOfCardsDue t)"
    using init_setup_connected [OF assms(1)] by blast
  have c: "AnkiSystemTray_construct s = Inr (if truthy v then hideAll t else t)"
    using t(1) assms(2) by (simp add: AnkiSystemTray_construct_def)
  show ?thesis
    using t by (simp add: c hideAll_more_fields hideAll_fields)
qed

text \<open>
  A construction that completes leaves the application where no exit has been requested.
\<close>

lemma construct_no_exit_yet:
  assumes "AnkiSystemTray_construct s = Inr s'" and "running s"
    and "AnkiQt_closeEvent \<notin> set (calls s)"
  shows "no_exit_yet s'"
proof -
  have c: "Slot_mw_close \<in> set (actionExit_triggered s)"
  proof (rule ccontr)
    assume "Slot_mw_close \<notin> set (actionExit_triggered s)"
    then obtain t ic where "init_setup s = Inl (TypeError, t)"
      using init_setup_disconnected by blast
    then show False
      using assms(1) by (simp add: AnkiSystemTray_construct_def)
  qed
  obtain t where t: "init_setup s = Inr t" "\<not> closeEventFromAction t" "running t = running s"
      "AnkiQt_closeEvent \<in> set (calls t) \<longleftrightarrow> AnkiQt_closeEvent \<in> set (calls s)"
    using init_setup_connected [OF c] by blast
  obtain v where v: "config s ''hide_on_startup'' = Some v"
      "s' = (if truthy v then hideAll t else t)"
    using assms(1) t(1)
    by (auto simp: AnkiSystemTray_construct_def split: option.splits)
  show ?thesis
    using t(2-4) assms(2,3)
    by (simp add: v(2) no_exit_yet_def hideAll_fields(3) closeEvent_calls_hideAll)
qed

lemma init_success:
  assumes "Slot_mw_close \<in> set (actionExit_triggered s)"
    and "config s ''hide_on_startup'' = Some v"
  shows "\<exists>t s'. init_setup s = Inr t \<and> AnkiSystemTray_init s = Inr s'
     \<and> showDueAmount s' = showDueAmount t
     \<and> dueFontSize s' = dueFontSize t
     \<and> isMinimizedToTray s' = truthy v
     \<and> \<not> closeEventFromAction s'
     \<and> trayIcons s' = Suc (trayIcons s)
     \<and> trayIcon s' = trayIcons s
     \<and> config s' = config s
     \<and> deck_due_tree s' = deck_due_tree s
     \<and> state_learn_color s' = state_learn_color s
     \<and> canvas_elevated_color s' = canvas_elevated_color s
     \<and> displayedNumberOfCardsDue s' = 0
     \<and> paintedCount s' = Some (getAmountOfCardsDue s')"
proof -
  obtain t s' where "init_setup s = Inr t" "AnkiSystemTray_construct s = Inr s'"
     "showDueAmount s' = showDueAmount t"
     "dueFontSize s' = dueFontSize t"
     "isMinimizedToTray s' = truthy v"
     "\<not> closeEventFromAction s'"
     "trayIcons s' = Suc (trayIcons s)"
     "trayIcon s' = trayIcons s"
     "config s' = config s"
     "deck_due_tree s' = deck_due_tree s"
     "state_learn_color s' = state_learn_color s"
     "canvas_elevated_color s' = canvas_elevated_color s"
     "displayedNumberOfCardsDue s' = 0"
     "paintedCount s' = Some (getAmountOfCardsDue s')"
    using construct_success [OF assms] by blast
  then show ?thesis
    by (simp add: AnkiSystemTray_init_def)
qed

lemma init_defaults:
  assumes "Slot_mw_close \<in> set (actionExit_triggered s)"
    and "config s ''hide_on_startup'' = Some v"
    and "config s ''show_due'' = None" and "config s ''due_font_size'' = None"
  shows "\<exists>s'. AnkiSystemTray_init s = Inr s' \<and> showDueAmount s' \<and> dueFontSize s' = 16"
proof -
  obtain t where t: "init_setup s = Inr t" "showDueAmount t" "dueFontSize t = 16"
    using init_setup_connected [OF assms(1)] assms(3,4) by (auto simp: dom_def)
  obtain t' s' where "init_setup s = Inr t'" "AnkiSystemTray_init s = Inr s'"
      "showDueAmount s' = showDueAmount t'" "dueFontSize s' = dueFontSize t'"
    using init_success [OF assms(1,2)] by blast
  then show ?thesis using t by simp
qed

lemma example_connected:
  "Slot_mw_close \<in> set (actionExit_triggered example_state)"
  "config example_state ''hide_on_startup'' = Some (CBool False)"
  "''trayIcon'' \<notin> mw_attrs example_state"
  "trayIcons example_state = 0"
  by (simp_all add: example_state_def)

lemma example_init:
  "\<exists>s'. AnkiSystemTray_init example_state = Inr s'
     \<and> showDueAmount s' \<and> dueFontSize s' = 16 \<and> trayIcon s' = 0
     \<and> deck_due_tree s' = deck_due_tree example_state
     \<and> state_learn_color s' = 1 \<and> canvas_elevated_color s' = 2
     \<and> displayedNumberOfCardsDue s' = 0
     \<and> getAmountOfCardsDue s' = 5
     \<and> paintedCount s' = Some 5"
proof -
  obtain t where t: "init_setup example_state = Inr t" "showDueAmount t" "dueFontSize t = 16"
    using init_setup_connected [OF example_connected(1)]
    by (auto simp: example_state_def)
  obtain t' s' where s: "init_setup example_state = Inr t'"
      "AnkiSystemTray_init example_state = Inr s'"
      "showDueAmount s' = showDueAmount t'" "dueFontSize s' = dueFontSize t'"
      "trayIcon s' = trayIcons example_state"
      "deck_due_tree s' = deck_due_tree example_state"
      "state_learn_color s' = state_learn_color example_state"
      "canvas_elevated_color s' = canvas_elevated_color example_state"
      "displayedNumberOfCardsDue s' = 0"
      "paintedCount s' = Some (getAmountOfCardsDue s')"
    using init_success [OF example_connected(1,2)] by blast
  have d: "showDueAmount s'" "dueFontSize s' = 16"
    using s(1,3,4) t by simp_all
  have g: "getAmountOfCardsDue s' = 5"
    using d by (simp add: getAmountOfCardsDue_def s(6)) (simp add: example_state_def)
  have c: "trayIcon s' = 0" "state_learn_color s' = 1" "canvas_elevated_color s' = 2"
    by (simp_all add: s(5,7,8)) (simp_all add: example_state_def)
  show ?thesis
    using s(2,6,9,10) d g c by simp
qed

text \<open>
  C5. \<open>updateSystemTrayIcon(True)\<close> always sets one icon, for the freshly queried count
  (lemma \<open>updateSystemTrayIcon_forced\<close>), and \<open>updateSystemTrayIcon(False)\<close> changes
  nothing when \<open>show_due\<close> is enabled and the queried count equals the cached
  \<open>_displayedNumberOfCardsDue\<close> (lemma \<open>updateSystemTrayIcon_unchanged_cache\<close>). But the
  cache is not the last-painted count after construction, where \<open>_createSystemTrayIcon\<close>
  has painted without caching: with five cards due the icon shows 5, the queried count is
  still 5, \<open>show_due\<close> is enabled, and \<open>updateSystemTrayIcon(False)\<close> paints the same
  badge again.
\<close>

theorem update_after_init_redraws_same_count:
  "\<exists>s'. AnkiSystemTray_init example_state = Inr s'
     \<and> showDueAmount s'
     \<and> paintedCount s' = Some 5
     \<and> getAmountOfCardsDue s' = 5
     \<and> calls (updateSystemTrayIcon False s') =
         calls s' @ [SetIcon 0 (Icon (Some \<lparr>badge_text = ascii ''5'',
            badge_rect = (0, 16, 32, 16), badge_pixelSize = 16, badge_pen = 1,
            badge_fill = 2\<rparr>))]
     \<and> updateSystemTrayIcon False s' \<noteq> s'"
proof -
  obtain s' where s: "AnkiSystemTray_init example_state = Inr s'"
      "showDueAmount s'" "dueFontSize s' = 16" "trayIcon s' = 0"
      "state_learn_color s' = 1" "canvas_elevated_color s' = 2"
      "displayedNumberOfCardsDue s' = 0" "getAmountOfCardsDue s' = 5"
      "paintedCount s' = Some 5"
    using example_init by blast
  have f: "formatNumber 5 = ascii ''5''"
    by (simp add: formatNumber_def str_def str_nat.simps ascii_def)
  have u: "calls (updateSystemTrayIcon False s') =
         calls s' @ [SetIcon 0 (Icon (Some \<lparr>badge_text = ascii ''5'',
            badge_rect = (0, 16, 32, 16), badge_pixelSize = 16, badge_pen = 1,
            badge_fill = 2\<rparr>))]"
    using s(2-8)
    by (simp add: updateSystemTrayIcon_def calls_setSystemTrayIcon createReviewsIcon_def f)
  have "calls (updateSystemTrayIcon False s') \<noteq> calls s'"
    by (simp add: u)
  then have "updateSystemTrayIcon False s' \<noteq> s'"
    by metis
  then show ?thesis
    using s u by blast
qed

text \<open>
  C10. \<open>_createSystemTrayIcon\<close> paints the queried count but does not store it in
  \<open>_displayedNumberOfCardsDue\<close>, as \<open>updateSystemTrayIcon\<close> does before it paints.
  After construction with five cards due the icon shows 5 while the cache holds 0; if the
  count then drops to 0, \<open>updateSystemTrayIcon(False)\<close> sees no change and leaves the 5
  on the icon.
\<close>

theorem init_cache_not_painted_count:
  "\<exists>s'. AnkiSystemTray_init example_state = Inr s'
     \<and> paintedCount s' = Some 5 \<and> displayedNumberOfCardsDue s' = 0
     \<and> updateSystemTrayIcon False (s'\<lparr>deck_due_tree := []\<rparr>) = s'\<lparr>deck_due_tree := []\<rparr>
     \<and> paintedCount (updateSystemTrayIcon False (s'\<lparr>deck_due_tree := []\<rparr>)) = Some 5
     \<and> getAmountOfCardsDue (s'\<lparr>deck_due_tree := []\<rparr>) = 0"
proof -
  obtain s' where s: "AnkiSystemTray_init example_state = Inr s'"
      "showDueAmount s'" "displayedNumberOfCardsDue s' = 0" "paintedCount s' = Some 5"
    using example_init by blast
  have u: "updateSystemTrayIcon False (s'\<lparr>deck_due_tree := []\<rparr>) = s'\<lparr>deck_due_tree := []\<rparr>"
    using s(2,3) by (simp add: updateSystemTrayIcon_def getAmountOfCardsDue_def)
  show ?thesis
    using s u by (simp add: getAmountOfCardsDue_def)
qed

lemma minimizeToTrayInit_first:
  assumes "''trayIcon'' \<notin> mw_attrs s"
    and "Slot_mw_close \<in> set (actionExit_triggered s)"
    and "config s ''hide_on_startup'' = Some v"
  shows "\<exists>s'. minimizeToTrayInit s = Inr s'
     \<and> trayIcons s' = Suc (trayIcons s)
     \<and> trayIcon s' = trayIcons s
     \<and> mw_attrs s' = insert ''systemTray''
          (insert ''closeEvent'' (insert ''closeEventFromAction'' (mw_attrs s)))
     \<and> config s' = config s
     \<and> actionExit_triggered s' =
         remove1 Slot_mw_close (actionExit_triggered s) @ [Slot_onExit]"
proof -
  obtain t s' where t: "init_setup s = Inr t" "AnkiSystemTray_construct s = Inr s'"
      "trayIcons s' = Suc (trayIcons s)" "trayIcon s' = trayIcons s"
      "mw_attrs s' = insert ''closeEvent'' (insert ''closeEventFromAction'' (mw_attrs s))"
      "config s' = config s"
      "actionExit_triggered s' = remove1 Slot_mw_close (actionExit_triggered s) @ [Slot_onExit]"
    using construct_success [OF assms(2,3)] by blast
  have "minimizeToTrayInit s = Inr (s'\<lparr>mw_attrs := insert ''systemTray'' (mw_attrs s')\<rparr>)"
    using assms(1) t(2) by (simp add: minimizeToTrayInit_def)
  then show ?thesis
    using t(3-7) by simp
qed

text \<open>
  Once \<open>mw.close\<close> has been disconnected from the exit action, a firing of the hook on
  a main window without the attribute \<open>trayIcon\<close> starts to construct a coordinator
  again: it creates and paints another tray icon, and then \<open>_configureMw\<close> raises.
\<close>

lemma minimizeToTrayInit_again:
  assumes "''trayIcon'' \<notin> mw_attrs s"
    and "Slot_mw_close \<notin> set (actionExit_triggered s)"
  shows "\<exists>s' ic. minimizeToTrayInit s = Inl (TypeError, s')
     \<and> trayIcons s' = Suc (trayIcons s)
     \<and> calls s' = calls s @ [NewTrayIcon (trayIcons s), SetIcon (trayIcons s) ic,
                               SetQuitOnLastWindowClosed False]
     \<and> focusChanged_connections s' = Suc (focusChanged_connections s)
     \<and> mw_attrs s' = insert ''closeEventFromAction'' (mw_attrs s)
     \<and> trayIcon s' = trayIcon s
     \<and> isMinimizedToTray s' = isMinimizedToTray s
     \<and> displayedNumberOfCardsDue s' = displayedNumberOfCardsDue s"
proof -
  obtain t ic where t: "init_setup s = Inl (TypeError, t)"
      "trayIcons t = Suc (trayIcons s)"
      "calls t = calls s @ [NewTrayIcon (trayIcons s), SetIcon (trayIcons s) ic,
                               SetQuitOnLastWindowClosed False]"
      "focusChanged_connections t = Suc (focusChanged_connections s)"
      "mw_attrs t = insert ''closeEventFromAction'' (mw_attrs s)"
    using init_setup_disconnected [OF assms(2)] by blast
  have "minimizeToTrayInit s = Inl (TypeError, keep_instance s t)"
    using assms(1) t(1) by (simp add: minimizeToTrayInit_def AnkiSystemTray_construct_def)
  then show ?thesis
    using t(2-5) by (simp add: keep_instance_def)
qed

text \<open>
  C9. \<open>minimizeToTrayInit\<close> guards on the attribute \<open>trayIcon\<close> of the main window but
  stores the coordinator in the attribute \<open>systemTray\<close>, so the guard does not fire at
  the second firing of the hook. The second invocation is not a no-op: it runs
  \<open>__init__\<close> again, which creates and paints a second tray icon, resets the exit flag
  of the main window and connects \<open>onFocusChanged\<close> a second time; then \<open>_configureMw\<close>
  raises \<open>TypeError\<close>, because \<open>mw.close\<close> is no longer connected to the exit action,
  and \<open>mw.systemTray\<close> keeps the first coordinator.
\<close>

theorem init_hook_second_firing_constructs_again:
  "\<exists>s1 s2 ic.
     minimizeToTrayInit example_state = Inr s1
     \<and> ''systemTray'' \<in> mw_attrs s1 \<and> ''trayIcon'' \<notin> mw_attrs s1
     \<and> trayIcons s1 = 1 \<and> trayIcon s1 = 0
     \<and> minimizeToTrayInit s1 = Inl (TypeError, s2)
     \<and> trayIcons s2 = 2 \<and> trayIcon s2 = 0
     \<and> calls s2 = calls s1 @ [NewTrayIcon 1, SetIcon 1 ic, SetQuitOnLastWindowClosed False]
     \<and> focusChanged_connections s2 = Suc (focusChanged_connections s1)
     \<and> isMinimizedToTray s2 = isMinimizedToTray s1
     \<and> displayedNumberOfCardsDue s2 = displayedNumberOfCardsDue s1
     \<and> s2 \<noteq> s1
     \<and> fire_main_window_did_init 2 example_state = Inl (TypeError, s2)"
proof -
  obtain s1 where s1: "minimizeToTrayInit example_state = Inr s1"
      "trayIcons s1 = 1" "trayIcon s1 = 0"
      "mw_attrs s1 = insert ''systemTray''
          (insert ''closeEvent'' (insert ''closeEventFromAction'' (mw_attrs example_state)))"
      "actionExit_triggered s1 =
         remove1 Slot_mw_close (actionExit_triggered example_state) @ [Slot_onExit]"
    using minimizeToTrayInit_first [OF example_connected(3,1,2)] example_connected(4)
    by auto
  have d: "Slot_mw_close \<notin> set (actionExit_triggered s1)"
    by (simp add: s1(5)) (simp add: example_state_def)
  have m: "''trayIcon'' \<notin> mw_attrs s1" "''systemTray'' \<in> mw_attrs s1"
    using example_connected(3) by (simp_all add: s1(4))
  obtain s2 ic where s2: "minimizeToTrayInit s1 = Inl (TypeError, s2)"
      "trayIcons s2 = Suc (trayIcons s1)"
      "calls s2 = calls s1 @ [NewTrayIcon (trayIcons s1), SetIcon (trayIcons s1) ic,
                               SetQuitOnLastWindowClosed False]"
      "focusChanged_connections s2 = Suc (focusChanged_connections s1)"
      "trayIcon s2 = trayIcon s1"
      "isMinimizedToTray s2 = isMinimizedToTray s1"
      "displayedNumberOfCardsDue s2 = displayedNumberOfCardsDue s1"
    using minimizeToTrayInit_again [OF m(1) d] by blast
  have n: "s2 \<noteq> s1"
    using s2(2) by auto
  have f: "fire_main_window_did_init 2 example_state = Inl (TypeError, s2)"
    using s1(1) s2(1) by (simp add: numeral_2_eq_2)
  show ?thesis
    using s1(1-3) m s2 n f by (intro exI [of _ s1] exI [of _ s2] exI [of _ ic]) simp
qed

end
